theory Spec2Isabelle
  imports Complex_Main
begin

section \<open>Values, errors and numpy primitives\<close>

text \<open>
  GaiaFunctions.py works on numpy values. A value is either a scalar (a Python float,
  a numpy float64 or a 0-d array) or a one-dimensional array. Elements are modelled as
  real numbers: rounding, infinities and NaN of IEEE doubles are outside the model.
\<close>

datatype ndarray = Scalar real | Array "real list"

text \<open>
  \<open>ShapeMismatch\<close> is the \<open>ValueError\<close> the module raises itself, with its message;
  \<open>BroadcastError\<close> is the \<open>ValueError\<close> numpy raises when two operands cannot be
  broadcast together; \<open>TypeError\<close> is raised by \<open>len\<close> of a scalar; \<open>IndexError\<close> by
  an index out of range.
\<close>

datatype error = ShapeMismatch string | BroadcastError | TypeError | IndexError

type_synonym 'a result = "error + 'a"

fun np_size :: "ndarray \<Rightarrow> nat" where
  "np_size (Scalar x) = 1"
| "np_size (Array xs) = length xs"

fun elems :: "ndarray \<Rightarrow> real list" where
  "elems (Scalar x) = [x]"
| "elems (Array xs) = xs"

fun ufunc :: "(real \<Rightarrow> real) \<Rightarrow> ndarray \<Rightarrow> ndarray" where
  "ufunc f (Scalar x) = Scalar (f x)"
| "ufunc f (Array xs) = Array (map f xs)"

text \<open>Element-wise binary operation with numpy's broadcasting rule for 0-d and 1-d operands.\<close>

fun broadcast2 :: "(real \<Rightarrow> real \<Rightarrow> real) \<Rightarrow> ndarray \<Rightarrow> ndarray \<Rightarrow> ndarray result" where
  "broadcast2 f (Scalar x) (Scalar y) = Inr (Scalar (f x y))"
| "broadcast2 f (Scalar x) (Array ys) = Inr (Array (map (f x) ys))"
| "broadcast2 f (Array xs) (Scalar y) = Inr (Array (map (\<lambda>x. f x y) xs))"
| "broadcast2 f (Array xs) (Array ys) =
     (if length xs = length ys then Inr (Array (map2 f xs ys))
      else if length xs = 1 then Inr (Array (map (f (hd xs)) ys))
      else if length ys = 1 then Inr (Array (map (\<lambda>x. f x (hd ys)) xs))
      else Inl BroadcastError)"

text \<open>Sequencing: an assignment whose right-hand side raised aborts the function.\<close>

definition bind_err :: "'a result \<Rightarrow> ('a \<Rightarrow> 'b result) \<Rightarrow> 'b result" where
  "bind_err m k = (case m of Inl e \<Rightarrow> Inl e | Inr v \<Rightarrow> k v)"

definition stmt :: "'a result \<Rightarrow> ('a result \<Rightarrow> 'b result) \<Rightarrow> 'b result" where
  "stmt m k = (case m of Inl e \<Rightarrow> Inl e | Inr v \<Rightarrow> k (Inr v))"

definition lift1 :: "(real \<Rightarrow> real) \<Rightarrow> ndarray result \<Rightarrow> ndarray result" where
  "lift1 f a = bind_err a (\<lambda>x. Inr (ufunc f x))"

text \<open>Python evaluates the left operand, then the right one, then applies the operator.\<close>

definition lift2 :: "(real \<Rightarrow> real \<Rightarrow> real) \<Rightarrow> ndarray result \<Rightarrow> ndarray result \<Rightarrow> ndarray result" where
  "lift2 f a b = bind_err a (\<lambda>x. bind_err b (\<lambda>y. broadcast2 f x y))"

definition py_float :: "real \<Rightarrow> ndarray result" where
  "py_float c = Inr (Scalar c)"

definition np_add :: "ndarray result \<Rightarrow> ndarray result \<Rightarrow> ndarray result" where
  "np_add = lift2 (\<lambda>x y. x + y)"

definition np_sub :: "ndarray result \<Rightarrow> ndarray result \<Rightarrow> ndarray result" where
  "np_sub = lift2 (\<lambda>x y. x - y)"

definition np_mul :: "ndarray result \<Rightarrow> ndarray result \<Rightarrow> ndarray result" where
  "np_mul = lift2 (\<lambda>x y. x * y)"

definition np_div :: "ndarray result \<Rightarrow> ndarray result \<Rightarrow> ndarray result" where
  "np_div = lift2 (\<lambda>x y. x / y)"

text \<open>Python's \<open>%\<close> on floats takes the sign of the divisor: \<open>x - floor(x / y) * y\<close>.\<close>

definition py_mod :: "real \<Rightarrow> real \<Rightarrow> real" where
  "py_mod x y = x - y * of_int \<lfloor>x / y\<rfloor>"

definition np_mod :: "ndarray result \<Rightarrow> ndarray result \<Rightarrow> ndarray result" where
  "np_mod = lift2 py_mod"

definition radians :: "real \<Rightarrow> real" where
  "radians x = x * pi / 180"

definition degrees :: "real \<Rightarrow> real" where
  "degrees x = x * 180 / pi"

text \<open>The two-argument arctangent \<open>arctan2 y x\<close>, with values in \<open>(-pi, pi]\<close>.\<close>

definition arctan2 :: "real \<Rightarrow> real \<Rightarrow> real" where
  "arctan2 y x =
     (if 0 < x then arctan (y / x)
      else if x < 0 \<and> 0 \<le> y then arctan (y / x) + pi
      else if x < 0 then arctan (y / x) - pi
      else if 0 < y then pi / 2
      else if y < 0 then - (pi / 2)
      else 0)"

definition np_radians :: "ndarray result \<Rightarrow> ndarray result" where
  "np_radians = lift1 radians"

definition np_degrees :: "ndarray result \<Rightarrow> ndarray result" where
  "np_degrees = lift1 degrees"

definition np_sin :: "ndarray result \<Rightarrow> ndarray result" where
  "np_sin = lift1 sin"

definition np_cos :: "ndarray result \<Rightarrow> ndarray result" where
  "np_cos = lift1 cos"

definition np_arcsin :: "ndarray result \<Rightarrow> ndarray result" where
  "np_arcsin = lift1 arcsin"

definition np_arctan2 :: "ndarray result \<Rightarrow> ndarray result \<Rightarrow> ndarray result" where
  "np_arctan2 = lift2 arctan2"

definition np_sqrt :: "ndarray result \<Rightarrow> ndarray result" where
  "np_sqrt = lift1 sqrt"

definition np_abs :: "ndarray result \<Rightarrow> ndarray result" where
  "np_abs = lift1 abs"

text \<open>\<open>a**2\<close>\<close>

definition np_sq :: "ndarray result \<Rightarrow> ndarray result" where
  "np_sq = lift1 (\<lambda>x. x ^ 2)"

text \<open>\<open>-c\<close> for a scalar constant.\<close>

definition np_neg :: "ndarray result \<Rightarrow> ndarray result" where
  "np_neg = lift1 (\<lambda>x. - x)"

definition np_zeros :: "nat \<Rightarrow> ndarray" where
  "np_zeros n = Array (replicate n 0)"

text \<open>\<open>len(a)\<close> and \<open>a[i]\<close>: a scalar has no length and cannot be indexed.\<close>

fun py_len :: "ndarray \<Rightarrow> nat result" where
  "py_len (Scalar x) = Inl TypeError"
| "py_len (Array xs) = Inr (length xs)"

fun getitem :: "ndarray \<Rightarrow> nat \<Rightarrow> real result" where
  "getitem (Scalar x) i = Inl TypeError"
| "getitem (Array xs) i = (if i < length xs then Inr (xs ! i) else Inl IndexError)"

text \<open>A returned Python tuple of arrays is the list of its components.\<close>

fun py_tuple :: "ndarray result list \<Rightarrow> ndarray list result" where
  "py_tuple [] = Inr []"
| "py_tuple (a # as) = bind_err a (\<lambda>x. bind_err (py_tuple as) (\<lambda>xs. Inr (x # xs)))"

section \<open>Global constants\<close>

definition kappa :: real where
  "kappa = 0.004743717361"

definition ra_pol :: real where
  "ra_pol = 192.8595"

definition dec_pol :: real where
  "dec_pol = 27.12825"

definition l_north :: real where
  "l_north = 122.932"

definition sin_dec_pol :: real where
  "sin_dec_pol = sin (radians dec_pol)"

definition cos_dec_pol :: real where
  "cos_dec_pol = cos (radians dec_pol)"

definition TGAL :: "real list list" where
  "TGAL = [[-0.0548755604, -0.8734370902, -0.4838350155],
           [0.4941094279, -0.4448296300, 0.7469822445],
           [-0.8676661490, -0.1980763734, 0.4559837762]]"

text \<open>\<open>TGAL[i,j]\<close>\<close>

definition tgal :: "nat \<Rightarrow> nat \<Rightarrow> ndarray result" where
  "tgal i j = py_float (TGAL ! i ! j)"

text \<open>The test \<open>e is not None and np.size(e) != num_stars\<close> on an optional argument.\<close>

definition mismatched :: "ndarray option \<Rightarrow> nat \<Rightarrow> bool" where
  "mismatched e num_stars = (case e of None \<Rightarrow> False | Some a \<Rightarrow> np_size a \<noteq> num_stars)"

section \<open>equatorial_galactic\<close>

definition equatorial_galactic :: "ndarray \<Rightarrow> ndarray \<Rightarrow> (ndarray \<times> ndarray) result" where
  "equatorial_galactic ra dec =
    (let num_stars = np_size ra in
     if np_size dec \<noteq> num_stars
     then Inl (ShapeMismatch ''The dimensions ra and dec do not agree. They must all be numpy arrays of the same length.'')
     else
       stmt (np_sub (Inr ra) (py_float ra_pol)) (\<lambda>ra_m_ra_pol.
       stmt (np_sin (np_radians ra_m_ra_pol)) (\<lambda>sin_ra.
       stmt (np_cos (np_radians ra_m_ra_pol)) (\<lambda>cos_ra.
       stmt (np_sin (np_radians (Inr dec))) (\<lambda>sin_dec.
       stmt (np_cos (np_radians (Inr dec))) (\<lambda>cos_dec.
       stmt (np_add (np_mul (py_float sin_dec_pol) sin_dec)
                    (np_mul (np_mul (py_float cos_dec_pol) cos_dec) cos_ra)) (\<lambda>gamma.
       stmt (np_degrees (np_arcsin gamma)) (\<lambda>gb.
       stmt (np_mul cos_dec sin_ra) (\<lambda>x1.
       stmt (np_div (np_sub sin_dec (np_mul (py_float sin_dec_pol) gamma)) (py_float cos_dec_pol)) (\<lambda>x2.
       stmt (np_sub (py_float l_north) (np_degrees (np_arctan2 x1 x2))) (\<lambda>gl.
       stmt (np_mod (np_add gl (py_float 360)) (py_float 360)) (\<lambda>gl.
       bind_err gl (\<lambda>gl. bind_err gb (\<lambda>gb. Inr (gl, gb)))))))))))))))"

section \<open>equatorial_XYZ\<close>

text \<open>The source's variable \<open>EX\<close> is written \<open>EX'\<close>, since \<open>EX\<close> is reserved syntax,
  and the parameter \<open>dist\<close> is written \<open>dist'\<close>, since \<open>dist\<close> is a constant of the library.\<close>

definition equatorial_XYZ :: "ndarray \<Rightarrow> ndarray \<Rightarrow> ndarray \<Rightarrow> ndarray option \<Rightarrow> ndarray list result" where
  "equatorial_XYZ ra dec dist' dist_error =
    (let num_stars = np_size ra in
     if np_size dec \<noteq> num_stars \<or> np_size dist' \<noteq> num_stars
     then Inl (ShapeMismatch ''ra, dec and distance must all be numpy arrays of the same size !'')
     else if mismatched dist_error num_stars
     then Inl (ShapeMismatch ''dist_error must be a numpy array of the same size as ra !'')
     else
       bind_err (equatorial_galactic ra dec) (\<lambda>(gl, gb).
       stmt (np_cos (np_radians (Inr gl))) (\<lambda>cos_gl.
       stmt (np_cos (np_radians (Inr gb))) (\<lambda>cos_gb.
       stmt (np_sin (np_radians (Inr gl))) (\<lambda>sin_gl.
       stmt (np_sin (np_radians (Inr gb))) (\<lambda>sin_gb.
       stmt (np_mul (np_mul cos_gb cos_gl) (Inr dist')) (\<lambda>X.
       stmt (np_mul (np_mul cos_gb sin_gl) (Inr dist')) (\<lambda>Y.
       stmt (np_mul sin_gb (Inr dist')) (\<lambda>Z.
       (case dist_error of
          Some dist_error \<Rightarrow>
            stmt (np_mul cos_gb cos_gl) (\<lambda>X_dist.
            stmt (np_abs (np_mul X_dist (Inr dist_error))) (\<lambda>EX'.
            stmt (np_mul cos_gb sin_gl) (\<lambda>Y_dist.
            stmt (np_abs (np_mul Y_dist (Inr dist_error))) (\<lambda>EY.
            stmt sin_gb (\<lambda>Z_dist.
            stmt (np_abs (np_mul Z_dist (Inr dist_error))) (\<lambda>EZ.
            py_tuple [X, Y, Z, EX', EY, EZ]))))))
        | None \<Rightarrow> py_tuple [X, Y, Z]))))))))))"

section \<open>equatorial_UVW\<close>

text \<open>
  The two loops \<open>for i in range(len(d)): red = kappa*d[i]; out.append(red)\<close>, over
  \<open>dist\<close> and over \<open>dist_error\<close>: the indices still to visit and the list built so far.
\<close>

fun reduce_loop :: "ndarray \<Rightarrow> nat list \<Rightarrow> real list \<Rightarrow> real list result" where
  "reduce_loop d [] out = Inr out"
| "reduce_loop d (i # is) out =
     bind_err (getitem d i) (\<lambda>x. reduce_loop d is (out @ [kappa * x]))"

text \<open>A Python list of floats met by a numpy operator is converted to an array.\<close>

definition np_asarray :: "real list \<Rightarrow> ndarray result" where
  "np_asarray xs = Inr (Array xs)"

text \<open>\<open>e = np.zeros(num_stars)\<close> under \<open>if e is None\<close>.\<close>

definition or_zeros :: "ndarray option \<Rightarrow> nat \<Rightarrow> ndarray" where
  "or_zeros e num_stars = (case e of None \<Rightarrow> np_zeros num_stars | Some a \<Rightarrow> a)"

definition equatorial_UVW ::
  "ndarray \<Rightarrow> ndarray \<Rightarrow> ndarray \<Rightarrow> ndarray \<Rightarrow> ndarray \<Rightarrow> ndarray \<Rightarrow>
   ndarray option \<Rightarrow> ndarray option \<Rightarrow> ndarray option \<Rightarrow> ndarray option \<Rightarrow> ndarray list result" where
  "equatorial_UVW ra dec pmra pmdec rv dist' pmra_error pmdec_error rv_error dist_error =
    (let num_stars = np_size ra in
     if np_size dec \<noteq> num_stars \<or> np_size pmra \<noteq> num_stars \<or> np_size pmdec \<noteq> num_stars
        \<or> np_size dist' \<noteq> num_stars
     then Inl (ShapeMismatch ''ra, dec, pmra, pmdec, rv and distance must all be numpy arrays of the same size !'')
     else if mismatched pmra_error num_stars
     then Inl (ShapeMismatch ''pmra_error must be a numpy array of the same size as ra !'')
     else if mismatched pmdec_error num_stars
     then Inl (ShapeMismatch ''pmdec_error must be a numpy array of the same size as ra !'')
     else if mismatched rv_error num_stars
     then Inl (ShapeMismatch ''rv_error must be a numpy array of the same size as ra !'')
     else if mismatched dist_error num_stars
     then Inl (ShapeMismatch ''dist_error must be a numpy array of the same size as ra !'')
     else
       stmt (np_cos (np_radians (Inr ra))) (\<lambda>cos_ra.
       stmt (np_cos (np_radians (Inr dec))) (\<lambda>cos_dec.
       stmt (np_sin (np_radians (Inr ra))) (\<lambda>sin_ra.
       stmt (np_sin (np_radians (Inr dec))) (\<lambda>sin_dec.
       stmt (np_add (np_add (np_mul (np_mul (tgal 0 0) cos_ra) cos_dec)
                            (np_mul (np_mul (tgal 0 1) sin_ra) cos_dec))
                    (np_mul (tgal 0 2) sin_dec)) (\<lambda>T1.
       stmt (np_add (np_mul (np_neg (tgal 0 0)) sin_ra) (np_mul (tgal 0 1) cos_ra)) (\<lambda>T2.
       stmt (np_add (np_sub (np_mul (np_mul (np_neg (tgal 0 0)) cos_ra) sin_dec)
                            (np_mul (np_mul (tgal 0 1) sin_ra) sin_dec))
                    (np_mul (tgal 0 2) cos_dec)) (\<lambda>T3.
       stmt (np_add (np_add (np_mul (np_mul (tgal 1 0) cos_ra) cos_dec)
                            (np_mul (np_mul (tgal 1 1) sin_ra) cos_dec))
                    (np_mul (tgal 1 2) sin_dec)) (\<lambda>T4.
       stmt (np_add (np_mul (np_neg (tgal 1 0)) sin_ra) (np_mul (tgal 1 1) cos_ra)) (\<lambda>T5.
       stmt (np_add (np_sub (np_mul (np_mul (np_neg (tgal 1 0)) cos_ra) sin_dec)
                            (np_mul (np_mul (tgal 1 1) sin_ra) sin_dec))
                    (np_mul (tgal 1 2) cos_dec)) (\<lambda>T6.
       stmt (np_add (np_add (np_mul (np_mul (tgal 2 0) cos_ra) cos_dec)
                            (np_mul (np_mul (tgal 2 1) sin_ra) cos_dec))
                    (np_mul (tgal 2 2) sin_dec)) (\<lambda>T7.
       stmt (np_add (np_mul (np_neg (tgal 2 0)) sin_ra) (np_mul (tgal 2 1) cos_ra)) (\<lambda>T8.
       stmt (np_add (np_sub (np_mul (np_mul (np_neg (tgal 2 0)) cos_ra) sin_dec)
                            (np_mul (np_mul (tgal 2 1) sin_ra) sin_dec))
                    (np_mul (tgal 2 2) cos_dec)) (\<lambda>T9.
       bind_err (py_len dist') (\<lambda>len_dist.
       bind_err (reduce_loop dist' [0..<len_dist] []) (\<lambda>reduced_dist.
       stmt (np_add (np_add (np_mul T1 (Inr rv))
                            (np_mul (np_mul T2 (Inr pmra)) (np_asarray reduced_dist)))
                    (np_mul (np_mul T3 (Inr pmdec)) (np_asarray reduced_dist))) (\<lambda>U.
       stmt (np_add (np_add (np_mul T4 (Inr rv))
                            (np_mul (np_mul T5 (Inr pmra)) (np_asarray reduced_dist)))
                    (np_mul (np_mul T6 (Inr pmdec)) (np_asarray reduced_dist))) (\<lambda>V.
       stmt (np_add (np_add (np_mul T7 (Inr rv))
                            (np_mul (np_mul T8 (Inr pmra)) (np_asarray reduced_dist)))
                    (np_mul (np_mul T9 (Inr pmdec)) (np_asarray reduced_dist))) (\<lambda>W.
       if pmra_error = None \<and> pmdec_error = None \<and> rv_error = None \<and> dist_error = None
       then py_tuple [U, V, W]
       else
         let pmra_error = Inr (or_zeros pmra_error num_stars);
             pmdec_error = Inr (or_zeros pmdec_error num_stars);
             rv_error = Inr (or_zeros rv_error num_stars);
             dist_error = or_zeros dist_error num_stars
         in
         bind_err (py_len dist_error) (\<lambda>len_dist_error.
         bind_err (reduce_loop dist_error [0..<len_dist_error] []) (\<lambda>reduced_dist_error.
         stmt (np_sqrt (np_add (np_sq (np_mul T2 (Inr pmra))) (np_sq (np_mul T3 (Inr pmdec))))) (\<lambda>T23_pm.
         stmt (np_sqrt (np_add (np_sq (np_mul T2 pmra_error)) (np_sq (np_mul T3 pmdec_error)))) (\<lambda>T23_pm_error.
         stmt (np_mul T1 rv_error) (\<lambda>EU_rv.
         stmt (np_mul T23_pm_error (np_asarray reduced_dist)) (\<lambda>EU_pm.
         stmt (np_mul T23_pm (np_asarray reduced_dist_error)) (\<lambda>EU_dist.
         stmt (np_mul T23_pm_error (np_asarray reduced_dist_error)) (\<lambda>EU_dist_pm.
         stmt (np_sqrt (np_add (np_sq (np_mul T5 (Inr pmra))) (np_sq (np_mul T6 (Inr pmdec))))) (\<lambda>T56_pm.
         stmt (np_sqrt (np_add (np_sq (np_mul T5 pmra_error)) (np_sq (np_mul T6 pmdec_error)))) (\<lambda>T56_pm_error.
         stmt (np_mul T4 rv_error) (\<lambda>EV_rv.
         stmt (np_mul T56_pm_error (np_asarray reduced_dist)) (\<lambda>EV_pm.
         stmt (np_mul T56_pm (np_asarray reduced_dist_error)) (\<lambda>EV_dist.
         stmt (np_mul T56_pm_error (np_asarray reduced_dist_error)) (\<lambda>EV_dist_pm.
         stmt (np_sqrt (np_add (np_sq (np_mul T8 (Inr pmra))) (np_sq (np_mul T9 (Inr pmdec))))) (\<lambda>T89_pm.
         stmt (np_sqrt (np_add (np_sq (np_mul T8 pmra_error)) (np_sq (np_mul T9 pmdec_error)))) (\<lambda>T89_pm_error.
         stmt (np_mul T7 rv_error) (\<lambda>EW_rv.
         stmt (np_mul T89_pm_error (np_asarray reduced_dist)) (\<lambda>EW_pm.
         stmt (np_mul T89_pm (np_asarray reduced_dist_error)) (\<lambda>EW_dist.
         stmt (np_mul T89_pm_error (np_asarray reduced_dist_error)) (\<lambda>EW_dist_pm.
         stmt (np_sqrt (np_add (np_add (np_add (np_sq EU_rv) (np_sq EU_pm)) (np_sq EU_dist)) (np_sq EU_dist_pm))) (\<lambda>EU.
         stmt (np_sqrt (np_add (np_add (np_add (np_sq EV_rv) (np_sq EV_pm)) (np_sq EV_dist)) (np_sq EV_dist_pm))) (\<lambda>EV.
         stmt (np_sqrt (np_add (np_add (np_add (np_sq EW_rv) (np_sq EW_pm)) (np_sq EW_dist)) (np_sq EW_dist_pm))) (\<lambda>EW.
         py_tuple [U, V, W, EU, EV, EW]
         )))))))))))))))))))))))
       )))))))))))))))))))"

section \<open>Per-star formulas\<close>

text \<open>\<open>tab N f\<close> is the array of length \<open>N\<close> whose element \<open>i\<close> is \<open>f i\<close>.\<close>

definition tab :: "nat \<Rightarrow> (nat \<Rightarrow> real) \<Rightarrow> ndarray" where
  "tab N f = Array (map f [0..<N])"

text \<open>
  The quantities of the Galactic angle transform for one star, following the algorithm of
  the specification: \<open>gamma\<close>, the latitude, \<open>x1\<close>, \<open>x2\<close> and the wrapped longitude.
\<close>

definition gamma_star :: "real \<Rightarrow> real \<Rightarrow> real" where
  "gamma_star ra dec = sin_dec_pol * sin (radians dec)
     + cos_dec_pol * cos (radians dec) * cos (radians (ra - ra_pol))"

definition gb_star :: "real \<Rightarrow> real \<Rightarrow> real" where
  "gb_star ra dec = degrees (arcsin (gamma_star ra dec))"

definition x1_star :: "real \<Rightarrow> real \<Rightarrow> real" where
  "x1_star ra dec = cos (radians dec) * sin (radians (ra - ra_pol))"

definition x2_star :: "real \<Rightarrow> real \<Rightarrow> real" where
  "x2_star ra dec = (sin (radians dec) - sin_dec_pol * gamma_star ra dec) / cos_dec_pol"

definition gl_star :: "real \<Rightarrow> real \<Rightarrow> real" where
  "gl_star ra dec =
     py_mod (l_north - degrees (arctan2 (x1_star ra dec) (x2_star ra dec)) + 360) 360"

text \<open>
  The projection coefficients of row \<open>r\<close> of \<open>TGAL\<close> for one star: the radial one and the
  two proper-motion ones. \<open>T1\<close>, \<open>T2\<close>, \<open>T3\<close> are those of row 0, \<open>T4\<close>, \<open>T5\<close>, \<open>T6\<close> of row 1
  and \<open>T7\<close>, \<open>T8\<close>, \<open>T9\<close> of row 2.
\<close>

definition T_radial :: "nat \<Rightarrow> real \<Rightarrow> real \<Rightarrow> real" where
  "T_radial r ra dec = TGAL ! r ! 0 * cos (radians ra) * cos (radians dec)
     + TGAL ! r ! 1 * sin (radians ra) * cos (radians dec) + TGAL ! r ! 2 * sin (radians dec)"

definition T_pmra :: "nat \<Rightarrow> real \<Rightarrow> real \<Rightarrow> real" where
  "T_pmra r ra dec = - (TGAL ! r ! 0) * sin (radians ra) + TGAL ! r ! 1 * cos (radians ra)"

definition T_pmdec :: "nat \<Rightarrow> real \<Rightarrow> real \<Rightarrow> real" where
  "T_pmdec r ra dec = - (TGAL ! r ! 0) * cos (radians ra) * sin (radians dec)
     - TGAL ! r ! 1 * sin (radians ra) * sin (radians dec) + TGAL ! r ! 2 * cos (radians dec)"

definition T1_star :: "real \<Rightarrow> real \<Rightarrow> real" where "T1_star = T_radial 0"
definition T2_star :: "real \<Rightarrow> real \<Rightarrow> real" where "T2_star = T_pmra 0"
definition T3_star :: "real \<Rightarrow> real \<Rightarrow> real" where "T3_star = T_pmdec 0"
definition T4_star :: "real \<Rightarrow> real \<Rightarrow> real" where "T4_star = T_radial 1"
definition T5_star :: "real \<Rightarrow> real \<Rightarrow> real" where "T5_star = T_pmra 1"
definition T6_star :: "real \<Rightarrow> real \<Rightarrow> real" where "T6_star = T_pmdec 1"
definition T7_star :: "real \<Rightarrow> real \<Rightarrow> real" where "T7_star = T_radial 2"
definition T8_star :: "real \<Rightarrow> real \<Rightarrow> real" where "T8_star = T_pmra 2"
definition T9_star :: "real \<Rightarrow> real \<Rightarrow> real" where "T9_star = T_pmdec 2"

text \<open>The velocity component of row \<open>r\<close> and its error bar, for one star.\<close>

definition velocity_star :: "nat \<Rightarrow> real \<Rightarrow> real \<Rightarrow> real \<Rightarrow> real \<Rightarrow> real \<Rightarrow> real \<Rightarrow> real" where
  "velocity_star r ra dec pmra pmdec rv d =
     T_radial r ra dec * rv + T_pmra r ra dec * pmra * (kappa * d)
       + T_pmdec r ra dec * pmdec * (kappa * d)"

definition error_star ::
  "nat \<Rightarrow> real \<Rightarrow> real \<Rightarrow> real \<Rightarrow> real \<Rightarrow> real \<Rightarrow> real \<Rightarrow> real \<Rightarrow> real \<Rightarrow> real \<Rightarrow> real" where
  "error_star r ra dec pmra pmdec d pe pde rve de =
     sqrt ((T_radial r ra dec * rve) ^ 2
       + (sqrt ((T_pmra r ra dec * pe) ^ 2 + (T_pmdec r ra dec * pde) ^ 2) * (kappa * d)) ^ 2
       + (sqrt ((T_pmra r ra dec * pmra) ^ 2 + (T_pmdec r ra dec * pmdec) ^ 2) * (kappa * de)) ^ 2
       + (sqrt ((T_pmra r ra dec * pe) ^ 2 + (T_pmdec r ra dec * pde) ^ 2) * (kappa * de)) ^ 2)"

text \<open>An optional error input read at star \<open>i\<close>, zero when it is not supplied.\<close>

definition or_zero :: "(nat \<Rightarrow> real) option \<Rightarrow> nat \<Rightarrow> real" where
  "or_zero e = (case e of None \<Rightarrow> (\<lambda>i. 0) | Some f \<Rightarrow> f)"

definition opt_length :: "nat \<Rightarrow> real list option \<Rightarrow> bool" where
  "opt_length N e = (case e of None \<Rightarrow> True | Some xs \<Rightarrow> length xs = N)"

definition supplied_or_zeros :: "nat \<Rightarrow> real list option \<Rightarrow> real list" where
  "supplied_or_zeros N e = (case e of None \<Rightarrow> replicate N 0 | Some xs \<Rightarrow> xs)"

text \<open>An optional error input that is absent or an array of \<open>N\<close> zeros.\<close>

definition zero_or_absent :: "nat \<Rightarrow> real list option \<Rightarrow> bool" where
  "zero_or_absent N e = (case e of None \<Rightarrow> True | Some xs \<Rightarrow> xs = replicate N 0)"

text \<open>A result that is not the module's own shape error.\<close>

definition no_shape :: "'a result \<Rightarrow> bool" where
  "no_shape r = (\<forall>m. r \<noteq> Inl (ShapeMismatch m))"

text \<open>
  The error components of \<open>equatorial_XYZ\<close> as the specification words them: the absolute
  direction cosine times \<open>dist_error\<close>.
\<close>

definition claimed_XYZ_errors :: "ndarray \<Rightarrow> ndarray \<Rightarrow> ndarray \<Rightarrow> ndarray list result" where
  "claimed_XYZ_errors ra dec dist_error =
     bind_err (equatorial_galactic ra dec) (\<lambda>(gl, gb).
       py_tuple
         [np_mul (np_abs (np_mul (np_cos (np_radians (Inr gb))) (np_cos (np_radians (Inr gl)))))
                 (Inr dist_error),
          np_mul (np_abs (np_mul (np_cos (np_radians (Inr gb))) (np_sin (np_radians (Inr gl)))))
                 (Inr dist_error),
          np_mul (np_abs (np_sin (np_radians (Inr gb)))) (Inr dist_error)])"

text \<open>
  The error components of \<open>equatorial_UVW\<close> as the specification words them when only
  \<open>rv_error\<close> is non-zero: the radial terms themselves.
\<close>

definition claimed_radial_errors :: "real list \<Rightarrow> real list \<Rightarrow> real list \<Rightarrow> ndarray list" where
  "claimed_radial_errors ra dec rv_error =
     [tab (length ra) (\<lambda>i. T1_star (ra ! i) (dec ! i) * rv_error ! i),
      tab (length ra) (\<lambda>i. T4_star (ra ! i) (dec ! i) * rv_error ! i),
      tab (length ra) (\<lambda>i. T7_star (ra ! i) (dec ! i) * rv_error ! i)]"

section \<open>Evaluation on arrays of a common length\<close>

lemma bind_err_simps [simp]:
  "bind_err (Inr v) k = k v" "bind_err (Inl e) k = Inl e"
  by (simp_all add: bind_err_def)

lemma stmt_simps [simp]:
  "stmt (Inr v) k = k (Inr v)" "stmt (Inl e) k = Inl e"
  by (simp_all add: stmt_def)

lemma map2_same: "map2 f (map g xs) (map h xs) = map (\<lambda>x. f (g x) (h x)) xs"
  by (induction xs) simp_all

lemma np_size_tab [simp]: "np_size (tab N f) = N"
  by (simp add: tab_def)

lemma py_len_tab [simp]: "py_len (tab N f) = Inr N"
  by (simp add: tab_def)

lemma lift1_tab [simp]: "lift1 f (Inr (tab N g)) = Inr (tab N (\<lambda>i. f (g i)))"
  by (simp add: lift1_def tab_def)

lemma lift1_Scalar [simp]: "lift1 f (Inr (Scalar c)) = Inr (Scalar (f c))"
  by (simp add: lift1_def)

lemma lift2_tab [simp]:
  "lift2 f (Inr (tab N g)) (Inr (tab N h)) = Inr (tab N (\<lambda>i. f (g i) (h i)))"
  by (simp add: lift2_def tab_def map2_same)

lemma lift2_Scalar_tab [simp]:
  "lift2 f (Inr (Scalar c)) (Inr (tab N h)) = Inr (tab N (\<lambda>i. f c (h i)))"
  "lift2 f (Inr (tab N g)) (Inr (Scalar c)) = Inr (tab N (\<lambda>i. f (g i) c))"
  by (simp_all add: lift2_def tab_def)

lemma lift2_Scalar [simp]:
  "lift2 f (Inr (Scalar c)) (Inr (Scalar d)) = Inr (Scalar (f c d))"
  by (simp add: lift2_def)

lemma reduce_loop_Array:
  "\<forall>i \<in> set js. i < length xs \<Longrightarrow>
   reduce_loop (Array xs) js out = Inr (out @ map (\<lambda>i. kappa * xs ! i) js)"
  by (induction js arbitrary: out) simp_all

lemma reduce_loop_tab [simp]:
  "reduce_loop (tab N f) [0..<N] [] = Inr (map (\<lambda>i. kappa * f i) [0..<N])"
  by (simp add: tab_def reduce_loop_Array)

lemma np_asarray_tab [simp]: "np_asarray (map f [0..<N]) = Inr (tab N f)"
  by (simp add: np_asarray_def tab_def)

lemma np_zeros_tab: "np_zeros N = tab N (\<lambda>i. 0)"
  by (simp add: np_zeros_def tab_def map_replicate_const)

lemma Array_tab: "length xs = N \<Longrightarrow> Array xs = tab N (\<lambda>i. xs ! i)"
  by (auto simp: tab_def intro: nth_equalityI)

lemma tab_cong: "(\<And>i. i < N \<Longrightarrow> f i = g i) \<Longrightarrow> tab N f = tab N g"
  by (simp add: tab_def)

lemma elems_tab: "elems (tab N f) = map f [0..<N]"
  by (simp add: tab_def)

lemma py_tuple_Inr [simp]:
  "py_tuple (Inr x # as) = bind_err (py_tuple as) (\<lambda>xs. Inr (x # xs))"
  by simp

lemmas np_defs = np_add_def np_sub_def np_mul_def np_div_def np_mod_def np_radians_def
  np_degrees_def np_sin_def np_cos_def np_arcsin_def np_arctan2_def np_sqrt_def np_abs_def
  np_sq_def np_neg_def py_float_def tgal_def

lemmas star_defs = gl_star_def gb_star_def x1_star_def x2_star_def gamma_star_def

lemma or_zeros_tab [simp]: "or_zeros (map_option (tab N) e) N = tab N (or_zero e)"
  by (cases e) (simp_all add: or_zeros_def or_zero_def np_zeros_tab)

lemma mismatched_tab [simp]: "\<not> mismatched (map_option (tab N) e) N"
  by (cases e) (simp_all add: mismatched_def)

lemma galactic_tab:
  "equatorial_galactic (tab N ra) (tab N dec) =
     Inr (tab N (\<lambda>i. gl_star (ra i) (dec i)), tab N (\<lambda>i. gb_star (ra i) (dec i)))"
  by (simp add: equatorial_galactic_def np_defs star_defs)

lemma galactic_Scalar:
  "equatorial_galactic (Scalar ra) (Scalar dec) =
     Inr (Scalar (gl_star ra dec), Scalar (gb_star ra dec))"
  by (simp add: equatorial_galactic_def np_defs star_defs)

lemma galactic_Scalar_tab:
  "equatorial_galactic (Scalar ra) (tab (Suc 0) dec) =
     Inr (tab (Suc 0) (\<lambda>i. gl_star ra (dec i)), tab (Suc 0) (\<lambda>i. gb_star ra (dec i)))"
  by (simp add: equatorial_galactic_def np_defs star_defs)

lemma galactic_tab_Scalar:
  "equatorial_galactic (tab (Suc 0) ra) (Scalar dec) =
     Inr (tab (Suc 0) (\<lambda>i. gl_star (ra i) dec), tab (Suc 0) (\<lambda>i. gb_star (ra i) dec))"
  by (simp add: equatorial_galactic_def np_defs star_defs)

lemma XYZ_tab:
  "equatorial_XYZ (tab N ra) (tab N dec) (tab N d) (map_option (tab N) de) =
     Inr ([tab N (\<lambda>i. cos (radians (gb_star (ra i) (dec i))) * cos (radians (gl_star (ra i) (dec i))) * d i),
           tab N (\<lambda>i. cos (radians (gb_star (ra i) (dec i))) * sin (radians (gl_star (ra i) (dec i))) * d i),
           tab N (\<lambda>i. sin (radians (gb_star (ra i) (dec i))) * d i)] @
          (case de of None \<Rightarrow> [] | Some e \<Rightarrow>
          [tab N (\<lambda>i. \<bar>cos (radians (gb_star (ra i) (dec i))) * cos (radians (gl_star (ra i) (dec i))) * e i\<bar>),
           tab N (\<lambda>i. \<bar>cos (radians (gb_star (ra i) (dec i))) * sin (radians (gl_star (ra i) (dec i))) * e i\<bar>),
           tab N (\<lambda>i. \<bar>sin (radians (gb_star (ra i) (dec i))) * e i\<bar>)]))"
  by (cases de) (simp_all add: equatorial_XYZ_def mismatched_def galactic_tab np_defs)

lemma UVW_tab:
  "equatorial_UVW (tab N ra) (tab N dec) (tab N pmra) (tab N pmdec) (tab N rv) (tab N d)
      (map_option (tab N) pe) (map_option (tab N) pde) (map_option (tab N) rve) (map_option (tab N) de) =
     Inr ([tab N (\<lambda>i. velocity_star 0 (ra i) (dec i) (pmra i) (pmdec i) (rv i) (d i)),
           tab N (\<lambda>i. velocity_star 1 (ra i) (dec i) (pmra i) (pmdec i) (rv i) (d i)),
           tab N (\<lambda>i. velocity_star 2 (ra i) (dec i) (pmra i) (pmdec i) (rv i) (d i))] @
          (if pe = None \<and> pde = None \<and> rve = None \<and> de = None then [] else
          [tab N (\<lambda>i. error_star 0 (ra i) (dec i) (pmra i) (pmdec i) (d i)
                     (or_zero pe i) (or_zero pde i) (or_zero rve i) (or_zero de i)),
           tab N (\<lambda>i. error_star 1 (ra i) (dec i) (pmra i) (pmdec i) (d i)
                     (or_zero pe i) (or_zero pde i) (or_zero rve i) (or_zero de i)),
           tab N (\<lambda>i. error_star 2 (ra i) (dec i) (pmra i) (pmdec i) (d i)
                     (or_zero pe i) (or_zero pde i) (or_zero rve i) (or_zero de i))]))"
  unfolding equatorial_UVW_def Let_def
  by (simp add: np_defs velocity_star_def error_star_def T_radial_def T_pmra_def T_pmdec_def
      del: One_nat_def)

text \<open>The same on lists: every input an array of length \<open>N\<close>, every supplied error too.\<close>

lemma opt_tab:
  "opt_length N e \<Longrightarrow> map_option Array e = map_option (tab N) (map_option nth e)"
  by (cases e) (simp_all add: opt_length_def Array_tab)

lemma UVW_lists:
  assumes "length ra = N" "length dec = N" "length pmra = N" "length pmdec = N"
    "length rv = N" "length d = N"
    "opt_length N pe" "opt_length N pde" "opt_length N rve" "opt_length N de"
  shows "equatorial_UVW (Array ra) (Array dec) (Array pmra) (Array pmdec) (Array rv) (Array d)
      (map_option Array pe) (map_option Array pde) (map_option Array rve) (map_option Array de) =
     Inr ([tab N (\<lambda>i. velocity_star 0 (ra ! i) (dec ! i) (pmra ! i) (pmdec ! i) (rv ! i) (d ! i)),
           tab N (\<lambda>i. velocity_star 1 (ra ! i) (dec ! i) (pmra ! i) (pmdec ! i) (rv ! i) (d ! i)),
           tab N (\<lambda>i. velocity_star 2 (ra ! i) (dec ! i) (pmra ! i) (pmdec ! i) (rv ! i) (d ! i))] @
          (if pe = None \<and> pde = None \<and> rve = None \<and> de = None then [] else
          [tab N (\<lambda>i. error_star 0 (ra ! i) (dec ! i) (pmra ! i) (pmdec ! i) (d ! i)
                     (or_zero (map_option nth pe) i) (or_zero (map_option nth pde) i)
                     (or_zero (map_option nth rve) i) (or_zero (map_option nth de) i)),
           tab N (\<lambda>i. error_star 1 (ra ! i) (dec ! i) (pmra ! i) (pmdec ! i) (d ! i)
                     (or_zero (map_option nth pe) i) (or_zero (map_option nth pde) i)
                     (or_zero (map_option nth rve) i) (or_zero (map_option nth de) i)),
           tab N (\<lambda>i. error_star 2 (ra ! i) (dec ! i) (pmra ! i) (pmdec ! i) (d ! i)
                     (or_zero (map_option nth pe) i) (or_zero (map_option nth pde) i)
                     (or_zero (map_option nth rve) i) (or_zero (map_option nth de) i))]))"
proof -
  note tabs = Array_tab [OF assms(1)] Array_tab [OF assms(2)] Array_tab [OF assms(3)]
    Array_tab [OF assms(4)] Array_tab [OF assms(5)] Array_tab [OF assms(6)]
    opt_tab [OF assms(7)] opt_tab [OF assms(8)] opt_tab [OF assms(9)] opt_tab [OF assms(10)]
  show ?thesis
    unfolding tabs UVW_tab by simp
qed

lemma XYZ_lists:
  assumes "length ra = N" "length dec = N" "length d = N" "opt_length N de"
  shows "equatorial_XYZ (Array ra) (Array dec) (Array d) (map_option Array de) =
     Inr ([tab N (\<lambda>i. cos (radians (gb_star (ra ! i) (dec ! i))) * cos (radians (gl_star (ra ! i) (dec ! i))) * d ! i),
           tab N (\<lambda>i. cos (radians (gb_star (ra ! i) (dec ! i))) * sin (radians (gl_star (ra ! i) (dec ! i))) * d ! i),
           tab N (\<lambda>i. sin (radians (gb_star (ra ! i) (dec ! i))) * d ! i)] @
          (case de of None \<Rightarrow> [] | Some e \<Rightarrow>
          [tab N (\<lambda>i. \<bar>cos (radians (gb_star (ra ! i) (dec ! i))) * cos (radians (gl_star (ra ! i) (dec ! i))) * e ! i\<bar>),
           tab N (\<lambda>i. \<bar>cos (radians (gb_star (ra ! i) (dec ! i))) * sin (radians (gl_star (ra ! i) (dec ! i))) * e ! i\<bar>),
           tab N (\<lambda>i. \<bar>sin (radians (gb_star (ra ! i) (dec ! i))) * e ! i\<bar>)]))"
proof -
  note tabs = Array_tab [OF assms(1)] Array_tab [OF assms(2)] Array_tab [OF assms(3)]
    opt_tab [OF assms(4)]
  show ?thesis
    unfolding tabs XYZ_tab by (cases de) simp_all
qed

lemma galactic_lists:
  assumes "length ra = N" "length dec = N"
  shows "equatorial_galactic (Array ra) (Array dec) =
     Inr (tab N (\<lambda>i. gl_star (ra ! i) (dec ! i)), tab N (\<lambda>i. gb_star (ra ! i) (dec ! i)))"
  unfolding Array_tab [OF assms(1)] Array_tab [OF assms(2)] galactic_tab ..

lemma replicate_tab: "Array (replicate N c) = tab N (\<lambda>i. c)"
  by (simp add: tab_def map_replicate_const)

lemma error_star_zero: "error_star r ra dec pmra pmdec d 0 0 0 0 = 0"
  by (simp add: error_star_def)

lemma error_star_radial:
  "error_star r ra dec pmra pmdec d 0 0 rve 0 = \<bar>T_radial r ra dec * rve\<bar>"
  by (simp add: error_star_def)

lemma supplied_or_zeros_nth:
  "i < N \<Longrightarrow> supplied_or_zeros N e ! i = or_zero (map_option nth e) i"
  by (cases e) (simp_all add: supplied_or_zeros_def or_zero_def)

lemma opt_length_supplied:
  "opt_length N e \<Longrightarrow> opt_length N (Some (supplied_or_zeros N e))"
  by (cases e) (simp_all add: opt_length_def supplied_or_zeros_def)

lemmas T_star_defs = T1_star_def T2_star_def T3_star_def T4_star_def T5_star_def T6_star_def
  T7_star_def T8_star_def T9_star_def

section \<open>Velocities, positions and their error bars\<close>

text \<open>
  C1. On arrays \<open>ra\<close>, \<open>dec\<close>, \<open>pmra\<close>, \<open>pmdec\<close>, \<open>rv\<close>, \<open>dist\<close> of common length \<open>N\<close> (and
  error arrays absent or of length \<open>N\<close>), \<open>equatorial_UVW\<close> returns, and the first three
  components of its result are, star by star,
  \<open>U = T1 * rv + T2 * pmra * (kappa * dist) + T3 * pmdec * (kappa * dist)\<close>, \<open>V\<close> likewise from
  \<open>T4\<close>, \<open>T5\<close>, \<open>T6\<close> and \<open>W\<close> from \<open>T7\<close>, \<open>T8\<close>, \<open>T9\<close>.
\<close>

theorem C1_UVW_velocity:
  assumes "length ra = N" "length dec = N" "length pmra = N" "length pmdec = N"
    "length rv = N" "length d = N"
    "opt_length N pe" "opt_length N pde" "opt_length N rve" "opt_length N de"
  shows "\<exists>errs. equatorial_UVW (Array ra) (Array dec) (Array pmra) (Array pmdec) (Array rv) (Array d)
      (map_option Array pe) (map_option Array pde) (map_option Array rve) (map_option Array de) =
     Inr ([tab N (\<lambda>i. T1_star (ra ! i) (dec ! i) * rv ! i
                      + T2_star (ra ! i) (dec ! i) * pmra ! i * (kappa * d ! i)
                      + T3_star (ra ! i) (dec ! i) * pmdec ! i * (kappa * d ! i)),
           tab N (\<lambda>i. T4_star (ra ! i) (dec ! i) * rv ! i
                      + T5_star (ra ! i) (dec ! i) * pmra ! i * (kappa * d ! i)
                      + T6_star (ra ! i) (dec ! i) * pmdec ! i * (kappa * d ! i)),
           tab N (\<lambda>i. T7_star (ra ! i) (dec ! i) * rv ! i
                      + T8_star (ra ! i) (dec ! i) * pmra ! i * (kappa * d ! i)
                      + T9_star (ra ! i) (dec ! i) * pmdec ! i * (kappa * d ! i))] @ errs)"
  unfolding UVW_lists [OF assms] velocity_star_def T_star_defs by simp

theorem C1_UVW_velocity_witness:
  "\<exists>errs. equatorial_UVW (Array [0, 90]) (Array [0, 0]) (Array [1, 1]) (Array [2, 2]) (Array [3, 3])
      (Array [4, 4]) None None None None =
     Inr ([tab 2 (\<lambda>i. T1_star ([0, 90] ! i) ([0, 0] ! i) * [3, 3] ! i
                      + T2_star ([0, 90] ! i) ([0, 0] ! i) * [1, 1] ! i * (kappa * [4, 4] ! i)
                      + T3_star ([0, 90] ! i) ([0, 0] ! i) * [2, 2] ! i * (kappa * [4, 4] ! i)),
           tab 2 (\<lambda>i. T4_star ([0, 90] ! i) ([0, 0] ! i) * [3, 3] ! i
                      + T5_star ([0, 90] ! i) ([0, 0] ! i) * [1, 1] ! i * (kappa * [4, 4] ! i)
                      + T6_star ([0, 90] ! i) ([0, 0] ! i) * [2, 2] ! i * (kappa * [4, 4] ! i)),
           tab 2 (\<lambda>i. T7_star ([0, 90] ! i) ([0, 0] ! i) * [3, 3] ! i
                      + T8_star ([0, 90] ! i) ([0, 0] ! i) * [1, 1] ! i * (kappa * [4, 4] ! i)
                      + T9_star ([0, 90] ! i) ([0, 0] ! i) * [2, 2] ! i * (kappa * [4, 4] ! i))] @ errs)"
  using C1_UVW_velocity [of "[0, 90]" 2 "[0, 0]" "[1, 1]" "[2, 2]" "[3, 3]" "[4, 4]" None None None None]
  by (simp add: opt_length_def)

text \<open>
  C4. On valid input \<open>equatorial_UVW\<close> returns a tuple of three components exactly when none
  of the four error arrays is supplied and of six components exactly when one at least is;
  in that case the result is the one obtained with every unsupplied error array replaced by
  an array of \<open>N\<close> zeros.
\<close>

theorem C4_UVW_tuple:
  assumes "length ra = N" "length dec = N" "length pmra = N" "length pmdec = N"
    "length rv = N" "length d = N"
    "opt_length N pe" "opt_length N pde" "opt_length N rve" "opt_length N de"
  shows "\<exists>r. equatorial_UVW (Array ra) (Array dec) (Array pmra) (Array pmdec) (Array rv) (Array d)
      (map_option Array pe) (map_option Array pde) (map_option Array rve) (map_option Array de) = Inr r
    \<and> (length r = 3 \<longleftrightarrow> pe = None \<and> pde = None \<and> rve = None \<and> de = None)
    \<and> (length r = 6 \<longleftrightarrow> \<not> (pe = None \<and> pde = None \<and> rve = None \<and> de = None))
    \<and> (\<not> (pe = None \<and> pde = None \<and> rve = None \<and> de = None) \<longrightarrow>
        equatorial_UVW (Array ra) (Array dec) (Array pmra) (Array pmdec) (Array rv) (Array d)
          (Some (Array (supplied_or_zeros N pe))) (Some (Array (supplied_or_zeros N pde)))
          (Some (Array (supplied_or_zeros N rve))) (Some (Array (supplied_or_zeros N de))) = Inr r)"
proof -
  have filled: "equatorial_UVW (Array ra) (Array dec) (Array pmra) (Array pmdec) (Array rv) (Array d)
      (Some (Array (supplied_or_zeros N pe))) (Some (Array (supplied_or_zeros N pde)))
      (Some (Array (supplied_or_zeros N rve))) (Some (Array (supplied_or_zeros N de))) =
     Inr [tab N (\<lambda>i. velocity_star 0 (ra ! i) (dec ! i) (pmra ! i) (pmdec ! i) (rv ! i) (d ! i)),
          tab N (\<lambda>i. velocity_star 1 (ra ! i) (dec ! i) (pmra ! i) (pmdec ! i) (rv ! i) (d ! i)),
          tab N (\<lambda>i. velocity_star 2 (ra ! i) (dec ! i) (pmra ! i) (pmdec ! i) (rv ! i) (d ! i)),
          tab N (\<lambda>i. error_star 0 (ra ! i) (dec ! i) (pmra ! i) (pmdec ! i) (d ! i)
                     (or_zero (map_option nth pe) i) (or_zero (map_option nth pde) i)
                     (or_zero (map_option nth rve) i) (or_zero (map_option nth de) i)),
          tab N (\<lambda>i. error_star 1 (ra ! i) (dec ! i) (pmra ! i) (pmdec ! i) (d ! i)
                     (or_zero (map_option nth pe) i) (or_zero (map_option nth pde) i)
                     (or_zero (map_option nth rve) i) (or_zero (map_option nth de) i)),
          tab N (\<lambda>i. error_star 2 (ra ! i) (dec ! i) (pmra ! i) (pmdec ! i) (d ! i)
                     (or_zero (map_option nth pe) i) (or_zero (map_option nth pde) i)
                     (or_zero (map_option nth rve) i) (or_zero (map_option nth de) i))]"
    using UVW_lists [OF assms(1-6) opt_length_supplied [OF assms(7)]
        opt_length_supplied [OF assms(8)] opt_length_supplied [OF assms(9)]
        opt_length_supplied [OF assms(10)]]
    by (simp add: or_zero_def supplied_or_zeros_nth [unfolded or_zero_def] cong: tab_cong)
  show ?thesis
    unfolding UVW_lists [OF assms] filled by simp
qed

theorem C4_UVW_tuple_witness:
  "\<exists>r. equatorial_UVW (Array [0]) (Array [0]) (Array [1]) (Array [2]) (Array [3]) (Array [4])
        None None (Some (Array [5])) None = Inr r
    \<and> length r \<noteq> 3 \<and> length r = 6
    \<and> equatorial_UVW (Array [0]) (Array [0]) (Array [1]) (Array [2]) (Array [3]) (Array [4])
        (Some (Array [0])) (Some (Array [0])) (Some (Array [5])) (Some (Array [0])) = Inr r"
  using C4_UVW_tuple [of "[0]" 1 "[0]" "[1]" "[2]" "[3]" "[4]" None None "Some [5]" None]
  by (simp add: opt_length_def supplied_or_zeros_def)

text \<open>
  C6. On valid input with the four error arrays supplied as arrays of \<open>N\<close> zeros,
  \<open>equatorial_UVW\<close> returns six components whose last three, \<open>EU\<close>, \<open>EV\<close> and \<open>EW\<close>, are zero
  for every star.
\<close>

theorem C6_UVW_zero_errors:
  assumes "length ra = N" "length dec = N" "length pmra = N" "length pmdec = N"
    "length rv = N" "length d = N"
  shows "\<exists>U V W. equatorial_UVW (Array ra) (Array dec) (Array pmra) (Array pmdec) (Array rv) (Array d)
      (Some (Array (replicate N 0))) (Some (Array (replicate N 0)))
      (Some (Array (replicate N 0))) (Some (Array (replicate N 0))) =
     Inr [U, V, W, Array (replicate N 0), Array (replicate N 0), Array (replicate N 0)]"
  unfolding Array_tab [OF assms(1)] Array_tab [OF assms(2)] Array_tab [OF assms(3)]
    Array_tab [OF assms(4)] Array_tab [OF assms(5)] Array_tab [OF assms(6)] replicate_tab
  using UVW_tab [of N "nth ra" "nth dec" "nth pmra" "nth pmdec" "nth rv" "nth d"
      "Some (\<lambda>i. 0)" "Some (\<lambda>i. 0)" "Some (\<lambda>i. 0)" "Some (\<lambda>i. 0)"]
  by (simp add: or_zero_def error_star_zero)

theorem C6_UVW_zero_errors_witness:
  "\<exists>U V W. equatorial_UVW (Array [10, 20]) (Array [30, 40]) (Array [1, 2]) (Array [3, 4])
      (Array [5, 6]) (Array [7, 8])
      (Some (Array [0, 0])) (Some (Array [0, 0])) (Some (Array [0, 0])) (Some (Array [0, 0])) =
     Inr [U, V, W, Array [0, 0], Array [0, 0], Array [0, 0]]"
  using C6_UVW_zero_errors [of "[10, 20]" 2 "[30, 40]" "[1, 2]" "[3, 4]" "[5, 6]" "[7, 8]"]
  by (simp add: numeral_2_eq_2)

lemma zero_or_absent_tab:
  "zero_or_absent N e \<Longrightarrow> map_option Array e = map_option (tab N) (map_option (\<lambda>_ i. 0) e)"
  by (cases e) (simp_all add: zero_or_absent_def replicate_tab)

lemma or_zero_const: "or_zero (map_option (\<lambda>_ i. 0) e) = (\<lambda>i. 0)"
  by (cases e) (simp_all add: or_zero_def)

lemma Array_single: "Array [c] = tab 1 (\<lambda>i. c)"
  by (simp add: tab_def)

lemma TGAL_column0:
  "TGAL ! 0 ! 0 = -0.0548755604" "TGAL ! 1 ! 0 = 0.4941094279"
  "TGAL ! Suc 0 ! 0 = 0.4941094279" "TGAL ! 2 ! 0 = -0.8676661490"
  by (simp_all add: TGAL_def)

lemma T_radial_origin: "T_radial r 0 0 = TGAL ! r ! 0"
  by (simp add: T_radial_def radians_def)

text \<open>
  C7. With \<open>rv_error\<close> supplied and the three other error arrays zero or absent, the returned
  errors are the absolute values of the radial terms: \<open>EU = |T1 * rv_error|\<close>,
  \<open>EV = |T4 * rv_error|\<close>, \<open>EW = |T7 * rv_error|\<close>, star by star.
\<close>

theorem C7_UVW_radial_errors:
  assumes "length ra = N" "length dec = N" "length pmra = N" "length pmdec = N"
    "length rv = N" "length d = N" "length rve = N"
    "zero_or_absent N pe" "zero_or_absent N pde" "zero_or_absent N de"
  shows "\<exists>U V W. equatorial_UVW (Array ra) (Array dec) (Array pmra) (Array pmdec) (Array rv) (Array d)
      (map_option Array pe) (map_option Array pde) (Some (Array rve)) (map_option Array de) =
     Inr [U, V, W,
          tab N (\<lambda>i. \<bar>T1_star (ra ! i) (dec ! i) * rve ! i\<bar>),
          tab N (\<lambda>i. \<bar>T4_star (ra ! i) (dec ! i) * rve ! i\<bar>),
          tab N (\<lambda>i. \<bar>T7_star (ra ! i) (dec ! i) * rve ! i\<bar>)]"
  unfolding Array_tab [OF assms(1)] Array_tab [OF assms(2)] Array_tab [OF assms(3)]
    Array_tab [OF assms(4)] Array_tab [OF assms(5)] Array_tab [OF assms(6)]
    Array_tab [OF assms(7)]
    zero_or_absent_tab [OF assms(8)] zero_or_absent_tab [OF assms(9)]
    zero_or_absent_tab [OF assms(10)]
  using UVW_tab [of N "nth ra" "nth dec" "nth pmra" "nth pmdec" "nth rv" "nth d"
      "map_option (\<lambda>_ i. 0) pe" "map_option (\<lambda>_ i. 0) pde" "Some (nth rve)"
      "map_option (\<lambda>_ i. 0) de"]
  by (simp add: or_zero_const error_star_radial T_star_defs) (simp add: or_zero_def)

theorem C7_UVW_radial_errors_witness:
  "\<exists>U V W. equatorial_UVW (Array [0]) (Array [0]) (Array [1]) (Array [2]) (Array [3]) (Array [4])
      None (Some (Array [0])) (Some (Array [5])) None =
     Inr [U, V, W,
          tab 1 (\<lambda>i. \<bar>T1_star ([0] ! i) ([0] ! i) * [5] ! i\<bar>),
          tab 1 (\<lambda>i. \<bar>T4_star ([0] ! i) ([0] ! i) * [5] ! i\<bar>),
          tab 1 (\<lambda>i. \<bar>T7_star ([0] ! i) ([0] ! i) * [5] ! i\<bar>)]"
  using C7_UVW_radial_errors [of "[0]" 1 "[0]" "[1]" "[2]" "[3]" "[4]" "[5]" None "Some [0]" None]
  by (simp add: zero_or_absent_def)

text \<open>
  C7, as stated, fails for one star at \<open>ra = 0\<close>, \<open>dec = 0\<close> with \<open>rv_error = 1\<close> and no other
  error: \<open>T1 = TGAL[0,0]\<close> and \<open>T7 = TGAL[2,0]\<close> are negative there, and the returned \<open>EU\<close> and
  \<open>EW\<close> are positive.
\<close>

theorem C7_counterexample:
  "equatorial_UVW (Array [0]) (Array [0]) (Array [0]) (Array [0]) (Array [0]) (Array [1])
      None None (Some (Array [1])) None =
     Inr [Array [0], Array [0], Array [0],
          Array [0.0548755604], Array [0.4941094279], Array [0.8676661490]]
   \<and> claimed_radial_errors [0] [0] [1] =
     [Array [-0.0548755604], Array [0.4941094279], Array [-0.8676661490]]"
proof
  show "equatorial_UVW (Array [0]) (Array [0]) (Array [0]) (Array [0]) (Array [0]) (Array [1])
      None None (Some (Array [1])) None =
     Inr [Array [0], Array [0], Array [0],
          Array [0.0548755604], Array [0.4941094279], Array [0.8676661490]]"
    unfolding Array_single
    using UVW_tab [of 1 "\<lambda>i. 0" "\<lambda>i. 0" "\<lambda>i. 0" "\<lambda>i. 0" "\<lambda>i. 0" "\<lambda>i. 1"
        None None "Some (\<lambda>i. 1)" None]
    by (simp add: or_zero_def error_star_radial velocity_star_def T_radial_origin TGAL_column0)
  show "claimed_radial_errors [0] [0] [1] =
     [Array [-0.0548755604], Array [0.4941094279], Array [-0.8676661490]]"
    by (simp add: claimed_radial_errors_def T_star_defs T_radial_origin TGAL_column0 tab_def)
qed

lemma tab_map: "tab N f = Array (map f [0..<N])"
  by (simp add: tab_def)

lemma radians_degrees [simp]: "radians (degrees x) = x"
  by (simp add: radians_def degrees_def)

text \<open>
  C2. On arrays \<open>ra\<close>, \<open>dec\<close>, \<open>dist\<close> of common length \<open>N\<close>, \<open>equatorial_galactic\<close> returns
  arrays \<open>gl\<close> and \<open>gb\<close> of length \<open>N\<close>, and \<open>equatorial_XYZ\<close> returns
  \<open>X = cos gb * cos gl * dist\<close>, \<open>Y = cos gb * sin gl * dist\<close>, \<open>Z = sin gb * dist\<close> star by star
  (angles in degrees), the same three components whether \<open>dist_error\<close> is supplied or not.
\<close>

theorem C2_XYZ_position:
  assumes "length ra = N" "length dec = N" "length d = N"
  shows "\<exists>gl gb X Y Z.
     equatorial_galactic (Array ra) (Array dec) = Inr (Array gl, Array gb)
     \<and> length gl = N \<and> length gb = N
     \<and> X = tab N (\<lambda>i. cos (radians (gb ! i)) * cos (radians (gl ! i)) * d ! i)
     \<and> Y = tab N (\<lambda>i. cos (radians (gb ! i)) * sin (radians (gl ! i)) * d ! i)
     \<and> Z = tab N (\<lambda>i. sin (radians (gb ! i)) * d ! i)
     \<and> equatorial_XYZ (Array ra) (Array dec) (Array d) None = Inr [X, Y, Z]
     \<and> (\<forall>e. length e = N \<longrightarrow>
          (\<exists>errs. equatorial_XYZ (Array ra) (Array dec) (Array d) (Some (Array e)) =
             Inr ([X, Y, Z] @ errs)))"
proof -
  define gl where "gl = map (\<lambda>i. gl_star (ra ! i) (dec ! i)) [0..<N]"
  define gb where "gb = map (\<lambda>i. gb_star (ra ! i) (dec ! i)) [0..<N]"
  have nth: "gl ! i = gl_star (ra ! i) (dec ! i)" "gb ! i = gb_star (ra ! i) (dec ! i)"
    if "i < N" for i
    using that by (simp_all add: gl_def gb_def)
  have g: "equatorial_galactic (Array ra) (Array dec) = Inr (Array gl, Array gb)"
    by (simp add: galactic_lists [OF assms(1,2)] tab_map gl_def gb_def)
  have len: "length gl = N" "length gb = N"
    by (simp_all add: gl_def gb_def)
  have none: "equatorial_XYZ (Array ra) (Array dec) (Array d) None =
      Inr [tab N (\<lambda>i. cos (radians (gb ! i)) * cos (radians (gl ! i)) * d ! i),
           tab N (\<lambda>i. cos (radians (gb ! i)) * sin (radians (gl ! i)) * d ! i),
           tab N (\<lambda>i. sin (radians (gb ! i)) * d ! i)]"
    using XYZ_lists [OF assms, of None] by (simp add: opt_length_def nth cong: tab_cong)
  have some: "\<exists>errs. equatorial_XYZ (Array ra) (Array dec) (Array d) (Some (Array e)) =
      Inr ([tab N (\<lambda>i. cos (radians (gb ! i)) * cos (radians (gl ! i)) * d ! i),
            tab N (\<lambda>i. cos (radians (gb ! i)) * sin (radians (gl ! i)) * d ! i),
            tab N (\<lambda>i. sin (radians (gb ! i)) * d ! i)] @ errs)"
    if "length e = N" for e
    using XYZ_lists [OF assms, of "Some e"] that
    by (simp add: opt_length_def nth cong: tab_cong)
  show ?thesis
    using g len none some by blast
qed

theorem C2_XYZ_position_witness:
  "\<exists>gl gb X Y Z.
     equatorial_galactic (Array [0, 10]) (Array [0, 20]) = Inr (Array gl, Array gb)
     \<and> length gl = 2 \<and> length gb = 2
     \<and> X = tab 2 (\<lambda>i. cos (radians (gb ! i)) * cos (radians (gl ! i)) * [100, 50] ! i)
     \<and> Y = tab 2 (\<lambda>i. cos (radians (gb ! i)) * sin (radians (gl ! i)) * [100, 50] ! i)
     \<and> Z = tab 2 (\<lambda>i. sin (radians (gb ! i)) * [100, 50] ! i)
     \<and> equatorial_XYZ (Array [0, 10]) (Array [0, 20]) (Array [100, 50]) None = Inr [X, Y, Z]
     \<and> (\<exists>errs. equatorial_XYZ (Array [0, 10]) (Array [0, 20]) (Array [100, 50]) (Some (Array [1, 2])) =
             Inr ([X, Y, Z] @ errs))"
proof -
  obtain gl gb X Y Z where
    h: "equatorial_galactic (Array [0, 10]) (Array [0, 20]) = Inr (Array gl, Array gb)"
      "length gl = 2" "length gb = 2"
      "X = tab 2 (\<lambda>i. cos (radians (gb ! i)) * cos (radians (gl ! i)) * [100, 50] ! i)"
      "Y = tab 2 (\<lambda>i. cos (radians (gb ! i)) * sin (radians (gl ! i)) * [100, 50] ! i)"
      "Z = tab 2 (\<lambda>i. sin (radians (gb ! i)) * [100, 50] ! i)"
      "equatorial_XYZ (Array [0, 10]) (Array [0, 20]) (Array [100, 50]) None = Inr [X, Y, Z]"
    and e: "\<forall>e. length e = 2 \<longrightarrow>
          (\<exists>errs. equatorial_XYZ (Array [0, 10]) (Array [0, 20]) (Array [100, 50]) (Some (Array e)) =
             Inr ([X, Y, Z] @ errs))"
    using C2_XYZ_position [of "[0, 10]" 2 "[0, 20]" "[100, 50]"] by auto
  from e have "\<exists>errs. equatorial_XYZ (Array [0, 10]) (Array [0, 20]) (Array [100, 50]) (Some (Array [1, 2])) =
             Inr ([X, Y, Z] @ errs)"
    by simp
  with h show ?thesis by blast
qed

text \<open>
  C5. On valid input with \<open>dist_error\<close> supplied, \<open>equatorial_XYZ\<close> returns six components
  whose last three are \<open>EX = |cos gb * cos gl| * |dist_error|\<close>,
  \<open>EY = |cos gb * sin gl| * |dist_error|\<close>, \<open>EZ = |sin gb| * |dist_error|\<close> star by star; with
  \<open>dist_error\<close> absent it returns the first three components only.
\<close>

theorem C5_XYZ_errors:
  assumes "length ra = N" "length dec = N" "length d = N" "length e = N"
  shows "\<exists>gl gb X Y Z.
     equatorial_galactic (Array ra) (Array dec) = Inr (Array gl, Array gb)
     \<and> length gl = N \<and> length gb = N
     \<and> equatorial_XYZ (Array ra) (Array dec) (Array d) (Some (Array e)) =
         Inr [X, Y, Z,
              tab N (\<lambda>i. \<bar>cos (radians (gb ! i)) * cos (radians (gl ! i))\<bar> * \<bar>e ! i\<bar>),
              tab N (\<lambda>i. \<bar>cos (radians (gb ! i)) * sin (radians (gl ! i))\<bar> * \<bar>e ! i\<bar>),
              tab N (\<lambda>i. \<bar>sin (radians (gb ! i))\<bar> * \<bar>e ! i\<bar>)]
     \<and> equatorial_XYZ (Array ra) (Array dec) (Array d) None = Inr [X, Y, Z]"
proof -
  define gl where "gl = map (\<lambda>i. gl_star (ra ! i) (dec ! i)) [0..<N]"
  define gb where "gb = map (\<lambda>i. gb_star (ra ! i) (dec ! i)) [0..<N]"
  have nth: "gl ! i = gl_star (ra ! i) (dec ! i)" "gb ! i = gb_star (ra ! i) (dec ! i)"
    if "i < N" for i
    using that by (simp_all add: gl_def gb_def)
  have g: "equatorial_galactic (Array ra) (Array dec) = Inr (Array gl, Array gb)"
    by (simp add: galactic_lists [OF assms(1,2)] tab_map gl_def gb_def)
  have len: "length gl = N" "length gb = N"
    by (simp_all add: gl_def gb_def)
  have some: "\<exists>X Y Z. equatorial_XYZ (Array ra) (Array dec) (Array d) (Some (Array e)) =
         Inr [X, Y, Z,
              tab N (\<lambda>i. \<bar>cos (radians (gb ! i)) * cos (radians (gl ! i))\<bar> * \<bar>e ! i\<bar>),
              tab N (\<lambda>i. \<bar>cos (radians (gb ! i)) * sin (radians (gl ! i))\<bar> * \<bar>e ! i\<bar>),
              tab N (\<lambda>i. \<bar>sin (radians (gb ! i))\<bar> * \<bar>e ! i\<bar>)]
     \<and> equatorial_XYZ (Array ra) (Array dec) (Array d) None = Inr [X, Y, Z]"
    using XYZ_lists [OF assms(1-3), of "Some e"] XYZ_lists [OF assms(1-3), of None] assms(4)
    by (simp add: opt_length_def nth abs_mult cong: tab_cong)
  show ?thesis
    using g len some by blast
qed

theorem C5_XYZ_errors_witness:
  "\<exists>gl gb X Y Z.
     equatorial_galactic (Array [0]) (Array [90]) = Inr (Array gl, Array gb)
     \<and> length gl = 1 \<and> length gb = 1
     \<and> equatorial_XYZ (Array [0]) (Array [90]) (Array [1]) (Some (Array [-1])) =
         Inr [X, Y, Z,
              tab 1 (\<lambda>i. \<bar>cos (radians (gb ! i)) * cos (radians (gl ! i))\<bar> * \<bar>[-1] ! i\<bar>),
              tab 1 (\<lambda>i. \<bar>cos (radians (gb ! i)) * sin (radians (gl ! i))\<bar> * \<bar>[-1] ! i\<bar>),
              tab 1 (\<lambda>i. \<bar>sin (radians (gb ! i))\<bar> * \<bar>[-1] ! i\<bar>)]
     \<and> equatorial_XYZ (Array [0]) (Array [90]) (Array [1]) None = Inr [X, Y, Z]"
  using C5_XYZ_errors [of "[0]" 1 "[90]" "[1]" "[-1]"] by simp

lemma sin_dec_pol_pos: "0 < sin_dec_pol"
proof -
  have "0 < radians dec_pol" "radians dec_pol < pi"
    by (simp_all add: radians_def dec_pol_def)
  then show ?thesis
    unfolding sin_dec_pol_def by (rule sin_gt_zero)
qed

lemma gamma_star_pole: "gamma_star ra 90 = sin_dec_pol"
  by (simp add: gamma_star_def radians_def)

lemma sin_gb_star_pole: "sin (radians (gb_star ra 90)) = sin_dec_pol"
  by (simp add: gb_star_def gamma_star_pole sin_dec_pol_def)

text \<open>
  C5, as stated, fails for one star at \<open>dec = 90\<close> with \<open>dist_error = -1\<close>: the returned \<open>EZ\<close>
  is \<open>sin_dec_pol\<close>, which is positive, and \<open>|sin gb| * dist_error\<close> is its negative.
\<close>

theorem C5_counterexample:
  "map_sum id (\<lambda>r. r ! 5)
      (equatorial_XYZ (Array [0]) (Array [90]) (Array [1]) (Some (Array [-1]))) =
     Inr (Array [sin_dec_pol])
   \<and> map_sum id (\<lambda>r. r ! 2) (claimed_XYZ_errors (Array [0]) (Array [90]) (Array [-1])) =
     Inr (Array [- sin_dec_pol])
   \<and> 0 < sin_dec_pol"
proof (intro conjI)
  show "map_sum id (\<lambda>r. r ! 5)
      (equatorial_XYZ (Array [0]) (Array [90]) (Array [1]) (Some (Array [-1]))) =
     Inr (Array [sin_dec_pol])"
    unfolding Array_single
    using XYZ_tab [of 1 "\<lambda>i. 0" "\<lambda>i. 90" "\<lambda>i. 1" "Some (\<lambda>i. -1)"] sin_dec_pol_pos
    by (simp add: sin_gb_star_pole tab_def)
  show "map_sum id (\<lambda>r. r ! 2) (claimed_XYZ_errors (Array [0]) (Array [90]) (Array [-1])) =
     Inr (Array [- sin_dec_pol])"
  proof -
    have "claimed_XYZ_errors (tab 1 (\<lambda>i. 0)) (tab 1 (\<lambda>i. 90)) (tab 1 (\<lambda>i. - 1)) =
        Inr [tab 1 (\<lambda>i. \<bar>cos (radians (gb_star 0 90)) * cos (radians (gl_star 0 90))\<bar> * - 1),
             tab 1 (\<lambda>i. \<bar>cos (radians (gb_star 0 90)) * sin (radians (gl_star 0 90))\<bar> * - 1),
             tab 1 (\<lambda>i. \<bar>sin (radians (gb_star 0 90))\<bar> * - 1)]"
      unfolding claimed_XYZ_errors_def galactic_tab by (simp add: np_defs)
    then show ?thesis
      unfolding Array_single using sin_dec_pol_pos by (simp add: sin_gb_star_pole tab_def)
  qed
  show "0 < sin_dec_pol"
    by (rule sin_dec_pol_pos)
qed

section \<open>Shapes\<close>

lemma map_upt_map2:
  "length xs = N \<Longrightarrow> length ys = N \<Longrightarrow>
   map (\<lambda>i. f (xs ! i) (ys ! i)) [0..<N] = map2 f xs ys"
  by (auto intro: nth_equalityI)

lemma galactic_elems:
  assumes "np_size dec = np_size ra"
  shows "\<exists>gl gb. equatorial_galactic ra dec = Inr (gl, gb)
     \<and> elems gl = map2 gl_star (elems ra) (elems dec)
     \<and> elems gb = map2 gb_star (elems ra) (elems dec)"
proof (cases ra)
  case ra: (Scalar a)
  show ?thesis
  proof (cases dec)
    case (Scalar b)
    with ra show ?thesis by (simp add: galactic_Scalar)
  next
    case (Array ys)
    with ra assms obtain y where "ys = [y]"
      by (cases ys) simp_all
    with ra Array show ?thesis
      by (simp add: Array_single galactic_Scalar_tab elems_tab)
  qed
next
  case ra: (Array xs)
  show ?thesis
  proof (cases dec)
    case (Scalar b)
    with ra assms obtain x where "xs = [x]"
      by (cases xs) simp_all
    with ra Scalar show ?thesis
      by (simp add: Array_single galactic_tab_Scalar elems_tab)
  next
    case (Array ys)
    with ra assms have len: "length xs = length xs" "length ys = length xs"
      by simp_all
    show ?thesis
      unfolding ra Array galactic_lists [OF len]
      by (simp add: elems_tab map_upt_map2 [OF len])
  qed
qed

lemma galactic_mismatch:
  "np_size dec \<noteq> np_size ra \<Longrightarrow> equatorial_galactic ra dec =
     Inl (ShapeMismatch ''The dimensions ra and dec do not agree. They must all be numpy arrays of the same length.'')"
  by (simp add: equatorial_galactic_def)

lemma py_mod_range:
  assumes "0 < y"
  shows "0 \<le> py_mod x y" "py_mod x y < y"
proof -
  have "of_int \<lfloor>x / y\<rfloor> * y \<le> x" "x < (of_int \<lfloor>x / y\<rfloor> + 1) * y"
    using assms by (rule floor_divide_lower, rule floor_divide_upper)
  then show "0 \<le> py_mod x y" "py_mod x y < y"
    by (simp_all add: py_mod_def algebra_simps)
qed

text \<open>
  C3. Whenever \<open>equatorial_galactic\<close> returns, the longitude of each star is
  \<open>(l_north - degrees (arctan2 x1 x2) + 360) mod 360\<close> and lies in \<open>[0, 360)\<close>.
\<close>

theorem C3_longitude_range:
  assumes "equatorial_galactic ra dec = Inr (gl, gb)"
  shows "elems gl =
      map2 (\<lambda>r d. py_mod (l_north - degrees (arctan2 (x1_star r d) (x2_star r d)) + 360) 360)
        (elems ra) (elems dec)
    \<and> (\<forall>g \<in> set (elems gl). 0 \<le> g \<and> g < 360)"
proof -
  have size: "np_size dec = np_size ra"
    using assms galactic_mismatch [of dec ra] by (cases "np_size dec = np_size ra") simp_all
  from galactic_elems [OF size] assms
  have gl: "elems gl = map2 gl_star (elems ra) (elems dec)"
    by auto
  have star: "gl_star = (\<lambda>r d. py_mod (l_north - degrees (arctan2 (x1_star r d) (x2_star r d)) + 360) 360)"
    by (simp add: gl_star_def fun_eq_iff)
  have "0 \<le> g \<and> g < 360" if "g \<in> set (elems gl)" for g
  proof -
    from that gl obtain r d where "g = gl_star r d"
      by (auto simp: in_set_zip)
    then show ?thesis
      using py_mod_range [of 360] by (simp add: gl_star_def)
  qed
  with gl star show ?thesis
    by simp
qed

theorem C3_longitude_range_witness:
  "\<exists>gl gb. equatorial_galactic (Array [0, 10]) (Array [0, 20]) = Inr (gl, gb)
    \<and> elems gl =
      map2 (\<lambda>r d. py_mod (l_north - degrees (arctan2 (x1_star r d) (x2_star r d)) + 360) 360)
        [0, 10] [0, 20]
    \<and> (\<forall>g \<in> set (elems gl). 0 \<le> g \<and> g < 360)"
proof -
  obtain gl gb where g: "equatorial_galactic (Array [0, 10]) (Array [0, 20]) = Inr (gl, gb)"
    using galactic_elems [of "Array [0, 20]" "Array [0, 10]"] by auto
  from C3_longitude_range [OF g] g show ?thesis
    by simp
qed

text \<open>
  C8. \<open>equatorial_galactic\<close> fails with its shape error exactly when the sizes of \<open>dec\<close> and
  \<open>ra\<close> differ, whatever the arithmetic would have done on those operands; when the sizes
  agree it returns.
\<close>

theorem C8_galactic_shape_check:
  "((\<exists>m. equatorial_galactic ra dec = Inl (ShapeMismatch m)) \<longleftrightarrow> np_size dec \<noteq> np_size ra)
   \<and> (np_size dec \<noteq> np_size ra \<longrightarrow> equatorial_galactic ra dec =
        Inl (ShapeMismatch ''The dimensions ra and dec do not agree. They must all be numpy arrays of the same length.''))
   \<and> (np_size dec = np_size ra \<longrightarrow> (\<exists>r. equatorial_galactic ra dec = Inr r))"
proof (cases "np_size dec = np_size ra")
  case True
  from galactic_elems [OF True] obtain r where "equatorial_galactic ra dec = Inr r"
    by auto
  with True show ?thesis by simp
next
  case False
  from galactic_mismatch [OF False] False show ?thesis by simp
qed

theorem C8_galactic_shape_check_witness:
  "equatorial_galactic (Array [0, 0]) (Array [0, 0, 0]) =
     Inl (ShapeMismatch ''The dimensions ra and dec do not agree. They must all be numpy arrays of the same length.'')
   \<and> (\<exists>r. equatorial_galactic (Array [0, 0]) (Array [1, 1]) = Inr r)"
  using C8_galactic_shape_check [of "Array [0, 0]" "Array [0, 0, 0]"]
    C8_galactic_shape_check [of "Array [0, 0]" "Array [1, 1]"]
  by simp

section \<open>Errors other than the shape error\<close>

lemma no_shape_Inr: "no_shape (Inr x)"
  by (simp add: no_shape_def)

lemma no_shape_bind:
  "no_shape m \<Longrightarrow> (\<And>x. no_shape (k x)) \<Longrightarrow> no_shape (bind_err m k)"
  by (cases m) (simp_all add: no_shape_def)

lemma no_shape_stmt:
  "no_shape m \<Longrightarrow> (\<And>x. no_shape x \<Longrightarrow> no_shape (k x)) \<Longrightarrow> no_shape (stmt m k)"
  by (cases m) (simp_all add: no_shape_def)

lemma no_shape_broadcast2: "no_shape (broadcast2 f a b)"
  by (cases a; cases b) (simp_all add: no_shape_def)

lemma no_shape_lift1: "no_shape a \<Longrightarrow> no_shape (lift1 f a)"
  unfolding lift1_def by (intro no_shape_bind no_shape_Inr)

lemma no_shape_lift2: "no_shape a \<Longrightarrow> no_shape b \<Longrightarrow> no_shape (lift2 f a b)"
  unfolding lift2_def by (intro no_shape_bind no_shape_broadcast2)

lemma no_shape_py_len: "no_shape (py_len a)"
  by (cases a) (simp_all add: no_shape_def)

lemma no_shape_getitem: "no_shape (getitem a i)"
  by (cases a) (simp_all add: no_shape_def)

lemma no_shape_reduce_loop: "no_shape (reduce_loop a js out)"
proof (induction js arbitrary: out)
  case Nil
  show ?case by (simp add: no_shape_Inr)
next
  case (Cons j js)
  show ?case
    unfolding reduce_loop.simps by (intro no_shape_bind no_shape_getitem Cons.IH)
qed

lemma no_shape_py_tuple_Nil: "no_shape (py_tuple [])"
  by (simp add: no_shape_Inr)

lemma no_shape_py_tuple_Cons:
  "no_shape a \<Longrightarrow> no_shape (py_tuple as) \<Longrightarrow> no_shape (py_tuple (a # as))"
  unfolding py_tuple.simps by (intro no_shape_bind no_shape_Inr)

lemma no_shape_if: "no_shape a \<Longrightarrow> no_shape b \<Longrightarrow> no_shape (if c then a else b)"
  by simp

lemmas no_shape_intros = no_shape_Inr no_shape_bind no_shape_stmt no_shape_lift1 no_shape_lift2
  no_shape_py_len no_shape_reduce_loop no_shape_py_tuple_Nil no_shape_py_tuple_Cons no_shape_if

text \<open>
  C9. When \<open>dec\<close>, \<open>pmra\<close>, \<open>pmdec\<close>, \<open>dist\<close> have the size of \<open>ra\<close> and every supplied error
  array too, \<open>equatorial_UVW\<close> does not fail with its shape error, whatever \<open>rv\<close> is: the
  length of \<open>rv\<close> is not validated.
\<close>

theorem C9_UVW_rv_unchecked:
  assumes "np_size dec = np_size ra" "np_size pmra = np_size ra" "np_size pmdec = np_size ra"
    "np_size d = np_size ra"
    "\<not> mismatched pe (np_size ra)" "\<not> mismatched pde (np_size ra)"
    "\<not> mismatched rve (np_size ra)" "\<not> mismatched de (np_size ra)"
  shows "\<forall>m. equatorial_UVW ra dec pmra pmdec rv d pe pde rve de \<noteq> Inl (ShapeMismatch m)"
proof -
  have v: "\<not> (np_size dec \<noteq> np_size ra \<or> np_size pmra \<noteq> np_size ra
      \<or> np_size pmdec \<noteq> np_size ra \<or> np_size d \<noteq> np_size ra)"
    using assms(1-4) by simp
  have "no_shape (equatorial_UVW ra dec pmra pmdec rv d pe pde rve de)"
    unfolding equatorial_UVW_def Let_def if_not_P [OF v] if_not_P [OF assms(5)]
      if_not_P [OF assms(6)] if_not_P [OF assms(7)] if_not_P [OF assms(8)]
      np_defs np_asarray_def
    by (intro no_shape_intros | assumption)+
  then show ?thesis
    by (simp add: no_shape_def)
qed

theorem C9_UVW_rv_unchecked_witness:
  "\<forall>m. equatorial_UVW (Array [0, 0]) (Array [0, 0]) (Array [1, 1]) (Array [1, 1]) (Array [1, 2, 3])
      (Array [1, 1]) None None None None \<noteq> Inl (ShapeMismatch m)"
  using C9_UVW_rv_unchecked [of "Array [0, 0]" "Array [0, 0]" "Array [1, 1]" "Array [1, 1]"
      "Array [1, 1]" None None None None "Array [1, 2, 3]"]
  by (simp add: mismatched_def)

text \<open>At the input of the witness the product \<open>T1*rv\<close> cannot be broadcast.\<close>

lemma UVW_rv_length_example:
  "equatorial_UVW (Array [0, 0]) (Array [0, 0]) (Array [1, 1]) (Array [1, 1]) (Array [1, 2, 3])
      (Array [1, 1]) None None None None = Inl BroadcastError"
  by (simp add: equatorial_UVW_def np_defs lift1_def lift2_def mismatched_def)

section \<open>Scalar inputs\<close>

lemma XYZ_Scalar:
  "equatorial_XYZ (Scalar ra) (Scalar dec) (Scalar d) (map_option Scalar de) =
     Inr (map Scalar
         ([cos (radians (gb_star ra dec)) * cos (radians (gl_star ra dec)) * d,
           cos (radians (gb_star ra dec)) * sin (radians (gl_star ra dec)) * d,
           sin (radians (gb_star ra dec)) * d] @
          (case de of None \<Rightarrow> [] | Some e \<Rightarrow>
          [\<bar>cos (radians (gb_star ra dec)) * cos (radians (gl_star ra dec)) * e\<bar>,
           \<bar>cos (radians (gb_star ra dec)) * sin (radians (gl_star ra dec)) * e\<bar>,
           \<bar>sin (radians (gb_star ra dec)) * e\<bar>])))"
  by (cases de) (simp_all add: equatorial_XYZ_def mismatched_def galactic_Scalar np_defs)

lemma XYZ_single:
  "equatorial_XYZ (Array [ra]) (Array [dec]) (Array [d]) (map_option (\<lambda>x. Array [x]) de) =
     Inr (map (\<lambda>x. Array [x])
         ([cos (radians (gb_star ra dec)) * cos (radians (gl_star ra dec)) * d,
           cos (radians (gb_star ra dec)) * sin (radians (gl_star ra dec)) * d,
           sin (radians (gb_star ra dec)) * d] @
          (case de of None \<Rightarrow> [] | Some e \<Rightarrow>
          [\<bar>cos (radians (gb_star ra dec)) * cos (radians (gl_star ra dec)) * e\<bar>,
           \<bar>cos (radians (gb_star ra dec)) * sin (radians (gl_star ra dec)) * e\<bar>,
           \<bar>sin (radians (gb_star ra dec)) * e\<bar>])))"
  using XYZ_tab [of 1 "\<lambda>i. ra" "\<lambda>i. dec" "\<lambda>i. d" "map_option (\<lambda>x i. x) de"]
  by (cases de) (simp_all add: tab_def)

lemma galactic_single:
  "equatorial_galactic (Array [ra]) (Array [dec]) =
     Inr (Array [gl_star ra dec], Array [gb_star ra dec])"
  using galactic_tab [of 1 "\<lambda>i. ra" "\<lambda>i. dec"] by (simp add: tab_def)

lemma mismatched_Scalar: "\<not> mismatched (map_option Scalar e) (Suc 0)"
  by (cases e) (simp_all add: mismatched_def)

lemma UVW_Scalar:
  "equatorial_UVW (Scalar ra) (Scalar dec) (Scalar pmra) (Scalar pmdec) (Scalar rv) (Scalar d)
      (map_option Scalar pe) (map_option Scalar pde) (map_option Scalar rve) (map_option Scalar de) =
     Inl TypeError"
  by (simp add: equatorial_UVW_def np_defs mismatched_Scalar)

text \<open>
  C10. \<open>equatorial_galactic\<close> and \<open>equatorial_XYZ\<close> accept scalars in place of arrays and
  return, as scalars, the values they return on the arrays of length 1 holding them;
  \<open>equatorial_UVW\<close> on scalars passes its validation and then fails with a \<open>TypeError\<close>,
  raised by \<open>len(dist)\<close>.
\<close>

theorem C10_scalar_inputs:
  "(\<exists>g b. equatorial_galactic (Scalar ra) (Scalar dec) = Inr (Scalar g, Scalar b)
       \<and> equatorial_galactic (Array [ra]) (Array [dec]) = Inr (Array [g], Array [b]))
   \<and> (\<exists>r. equatorial_XYZ (Scalar ra) (Scalar dec) (Scalar d) (map_option Scalar de) =
           Inr (map Scalar r)
       \<and> equatorial_XYZ (Array [ra]) (Array [dec]) (Array [d]) (map_option (\<lambda>x. Array [x]) de) =
           Inr (map (\<lambda>x. Array [x]) r))
   \<and> equatorial_UVW (Scalar ra) (Scalar dec) (Scalar pmra) (Scalar pmdec) (Scalar rv) (Scalar d)
        (map_option Scalar pe) (map_option Scalar pde) (map_option Scalar rve)
        (map_option Scalar de') = Inl TypeError"
  unfolding galactic_Scalar galactic_single XYZ_Scalar XYZ_single UVW_Scalar by blast

theorem C10_scalar_inputs_witness:
  "(\<exists>g b. equatorial_galactic (Scalar 0) (Scalar 0) = Inr (Scalar g, Scalar b)
       \<and> equatorial_galactic (Array [0]) (Array [0]) = Inr (Array [g], Array [b]))
   \<and> (\<exists>r. equatorial_XYZ (Scalar 0) (Scalar 0) (Scalar 100) (Some (Scalar 2)) = Inr (map Scalar r)
       \<and> equatorial_XYZ (Array [0]) (Array [0]) (Array [100]) (Some (Array [2])) =
           Inr (map (\<lambda>x. Array [x]) r))
   \<and> equatorial_UVW (Scalar 0) (Scalar 0) (Scalar 1) (Scalar 2) (Scalar 3) (Scalar 100)
        None None (Some (Scalar 1)) None = Inl TypeError"
  using C10_scalar_inputs [of 0 0 100 "Some 2" 1 2 3 None None "Some 1" None]
  by simp

text \<open>
  C10, as stated, fails for \<open>equatorial_UVW\<close>: on scalar inputs it raises a \<open>TypeError\<close>
  where arrays of length 1 give a result.
\<close>

theorem C10_counterexample:
  "equatorial_UVW (Scalar 0) (Scalar 0) (Scalar 0) (Scalar 0) (Scalar 0) (Scalar 1)
      None None None None = Inl TypeError
   \<and> equatorial_UVW (Array [0]) (Array [0]) (Array [0]) (Array [0]) (Array [0]) (Array [1])
      None None None None = Inr [Array [0], Array [0], Array [0]]"
proof
  show "equatorial_UVW (Scalar 0) (Scalar 0) (Scalar 0) (Scalar 0) (Scalar 0) (Scalar 1)
      None None None None = Inl TypeError"
    using UVW_Scalar [of 0 0 0 0 0 1 None None None None] by simp
  show "equatorial_UVW (Array [0]) (Array [0]) (Array [0]) (Array [0]) (Array [0]) (Array [1])
      None None None None = Inr [Array [0], Array [0], Array [0]]"
    unfolding Array_single
    using UVW_tab [of 1 "\<lambda>i. 0" "\<lambda>i. 0" "\<lambda>i. 0" "\<lambda>i. 0" "\<lambda>i. 0" "\<lambda>i. 1"
        None None None None]
    by (simp add: velocity_star_def)
qed

end
